theory Spec2Isabelle
  imports Complex_Main "HOL-Library.AList" "HOL-Library.Word"
begin

section \<open>The output monitor of \<open>jupyter_output_monitor/_monitor.py\<close>\<close>

text \<open>
  The script has two functions. \<open>monitor\<close> drives a browser page: it waits for input cells,
  executes each of them and, for a fixed time after each execution, polls the output
  regions of the page, saving a screenshot and logging an event whenever the picture of a
  marked region changes. \<open>write_profiled_notebook_copy\<close> reads the event log back, groups
  the events by executed cell and weaves one markdown cell per executed cell into a copy of
  the notebook.

  Everything the script gets from outside (the page, the clocks, the file system, the parsed
  log and notebook) is an explicit argument of the model; everything it raises is a value
  of type \<open>error\<close>.
\<close>

datatype error = ValueError | KeyError | IndexError | TypeError

type_synonym bytes = "8 word list"

section \<open>Python helpers\<close>

text \<open>\<open>xs[i]\<close> on a Python list: a negative index counts from the end, an index out of
  range raises \<open>IndexError\<close>.\<close>

definition py_getitem :: "'a list \<Rightarrow> int \<Rightarrow> error + 'a" where
  "py_getitem xs i =
     (if 0 \<le> i then (if i < int (length xs) then Inr (xs ! nat i) else Inl IndexError)
      else (if - int (length xs) \<le> i then Inr (xs ! nat (int (length xs) + i))
            else Inl IndexError))"

text \<open>A loop or comprehension that builds a list and whose body may raise: the first error
  ends it.\<close>

fun map_err :: "('a \<Rightarrow> error + 'b) \<Rightarrow> 'a list \<Rightarrow> error + 'b list" where
  "map_err f [] = Inr []"
| "map_err f (x # xs) =
     (case f x of
        Inl e \<Rightarrow> Inl e
      | Inr y \<Rightarrow> (case map_err f xs of Inl e \<Rightarrow> Inl e | Inr ys \<Rightarrow> Inr (y # ys)))"

text \<open>Decimal numerals, as \<open>str\<close> and the format \<open>d\<close> print an integer.\<close>

definition digit_char :: "nat \<Rightarrow> char" where
  "digit_char d = ''0123456789'' ! (d mod 10)"

fun dec_nat :: "nat \<Rightarrow> string" where
  "dec_nat n = (if n < 10 then [digit_char n] else dec_nat (n div 10) @ [digit_char n])"

definition str_int :: "int \<Rightarrow> string" where
  "str_int i = (if i < 0 then CHR ''-'' # dec_nat (nat (- i)) else dec_nat (nat i))"

text \<open>The format \<open>03d\<close>: the numeral, sign included, padded with zeros after the sign to a
  width of three.\<close>

definition fmt_03d :: "int \<Rightarrow> string" where
  "fmt_03d i =
     (if i < 0
      then CHR ''-'' # replicate (2 - length (dec_nat (nat (- i)))) CHR ''0'' @ dec_nat (nat (- i))
      else replicate (3 - length (dec_nat (nat i))) CHR ''0'' @ dec_nat (nat i))"

text \<open>\<open>os.path.basename\<close> and \<open>os.path.join\<close> of two components, on POSIX paths.\<close>

definition basename :: "string \<Rightarrow> string" where
  "basename p = rev (takeWhile (\<lambda>c. c \<noteq> CHR ''/'') (rev p))"

definition path_join :: "string \<Rightarrow> string \<Rightarrow> string" where
  "path_join a b =
     (if b \<noteq> [] \<and> hd b = CHR ''/'' then b
      else if a = [] \<or> last a = CHR ''/'' then a @ b
      else a @ ''/'' @ b)"

section \<open>The post-processor: \<open>write_profiled_notebook_copy\<close>\<close>

subsection \<open>The parsed log\<close>

text \<open>
  A row of the event log, as \<open>np.recfromcsv\<close> hands it over: the four columns of the header
  \<open>time,event,index,screenshot\<close>. The type parameter is the type of the time column: first
  the parsed \<open>datetime\<close> (an integer number of microseconds, the resolution of \<open>datetime\<close>),
  then the elapsed seconds that the code writes back into the column. Python computes the
  seconds as floats; the model uses exact rationals. The parse itself is outside the model:
  the rows are its input, in the order of the file.
\<close>

record 't log_row =
  time :: 't
  event :: string
  index :: int
  screenshot :: string

type_synonym datetime = int

definition total_seconds :: "int \<Rightarrow> rat" where
  "total_seconds us = of_int us / 1000000"

text \<open>
  The conversion of the time column, from \<open>datetimes = [... for dt in log['time']]\<close> to
  \<open>log['time'] = [(dt - datetimes[0]).total_seconds() for dt in datetimes]\<close>. For a log with
  exactly one data row \<open>np.recfromcsv\<close> returns an array without dimension, which the first
  comprehension cannot iterate: a \<open>TypeError\<close>. On a log without data rows the
  comprehensions never read \<open>datetimes[0]\<close>.
\<close>

definition elapsed_times :: "datetime log_row list \<Rightarrow> error + rat log_row list" where
  "elapsed_times rows =
     (if length rows = 1 then Inl TypeError
      else
        (case rows of
           [] \<Rightarrow> Inr []
         | r0 # _ \<Rightarrow>
             Inr (map (\<lambda>r. \<lparr>time = total_seconds (time r - time r0), event = event r,
                            index = index r, screenshot = screenshot r\<rparr>) rows)))"

subsection \<open>Grouping by executed cell\<close>

text \<open>The dictionary built for an \<open>output-changed\<close> row: the row and the two added keys.\<close>

record changed_row = "rat log_row" +
  output_from_cell :: int
  dt :: rat

text \<open>An entry of \<open>results\<close>. Its \<open>execute-input\<close> key holds \<open>None\<close> only between two
  adjacent statements, so the model stores the row at once.\<close>

record cell_group =
  execute_input :: "rat log_row"
  output_changed :: "changed_row list"

text \<open>\<open>results\<close> is an \<open>OrderedDict\<close>: an association list in insertion order, with at most
  one entry per key.\<close>

type_synonym results = "(int \<times> cell_group) list"

type_synonym group_state = "results \<times> int option"

text \<open>One iteration of the loop \<open>for i, row in enumerate(log)\<close>. \<open>results[None]\<close> is a
  \<open>KeyError\<close>: \<open>None\<close> is never a key.\<close>

fun group_step :: "group_state \<Rightarrow> rat log_row \<Rightarrow> error + group_state" where
  "group_step (results, last_executed_cell) row =
     (if map_of results (index row) = None \<and> event row = ''execute-input'' then
        Inr (results @ [(index row, \<lparr>execute_input = row, output_changed = []\<rparr>)],
             Some (index row))
      else if event row = ''output-changed'' then
        (case last_executed_cell of
           None \<Rightarrow> Inl KeyError
         | Some c \<Rightarrow>
             (case map_of results c of
                None \<Rightarrow> Inl KeyError
              | Some g \<Rightarrow>
                  Inr (AList.update c
                         (g\<lparr>output_changed := output_changed g @
                              [\<lparr>time = time row, event = event row, index = index row,
                                screenshot = screenshot row, output_from_cell = c,
                                dt = time row - time (execute_input g)\<rparr>]\<rparr>)
                         results,
                       last_executed_cell)))
      else Inr (results, last_executed_cell))"

fun group_rows :: "group_state \<Rightarrow> rat log_row list \<Rightarrow> error + group_state" where
  "group_rows s [] = Inr s"
| "group_rows s (row # rows) =
     (case group_step s row of Inl e \<Rightarrow> Inl e | Inr s' \<Rightarrow> group_rows s' rows)"

subsection \<open>Final timing results and annotations\<close>

record cell_result = cell_group +
  total :: "rat option"
  n_updates :: "nat option"

definition finalize :: "cell_group \<Rightarrow> cell_result" where
  "finalize g =
     \<lparr>execute_input = execute_input g, output_changed = output_changed g,
      total = (if output_changed g \<noteq> [] then Some (dt (last (output_changed g))) else None),
      n_updates = (if output_changed g \<noteq> [] then Some (length (output_changed g)) else None)\<rparr>"

text \<open>The conversion, the grouping loop and the loop that computes the final results.\<close>

definition profiling_results :: "datetime log_row list \<Rightarrow> error + (int \<times> cell_result) list" where
  "profiling_results rows =
     (case elapsed_times rows of
        Inl e \<Rightarrow> Inl e
      | Inr converted \<Rightarrow>
          (case group_rows ([], None) converted of
             Inl e \<Rightarrow> Inl e
           | Inr (results, _) \<Rightarrow> Inr (map (\<lambda>(idx, g). (idx, finalize g)) results)))"

text \<open>The annotation of one executed cell. The format \<open>.2f\<close> of a float is Python's own
  and is taken as the parameter \<open>fmt_2f\<close>; the formats \<open>.2f\<close> and \<open>d\<close> raise a \<open>TypeError\<close> on
  \<open>None\<close>.\<close>

definition markdown_annotation ::
  "(rat \<Rightarrow> string) \<Rightarrow> int \<times> cell_result \<Rightarrow> error + string" where
  "markdown_annotation fmt_2f entry =
     (case entry of (idx, result) \<Rightarrow>
        (if output_changed result \<noteq> [] then
           (case total result of
              None \<Rightarrow> Inl TypeError
            | Some t \<Rightarrow>
                (case n_updates result of
                   None \<Rightarrow> Inl TypeError
                 | Some n \<Rightarrow>
                     Inr (''![output screenshot]('' @
                          basename (screenshot (last (output_changed result))) @
                          '')\<newline>\<newline>'' @
                          ''#### Profiling result for cell '' @ str_int idx @ '': \<newline> * '' @
                          fmt_2f t @ '' seconds '' @
                          ''elapsed\<newline> * '' @ str_int (int n) @
                          '' output updates\<newline>'')))
         else
           Inr (''#### Profiling result for cell '' @ str_int idx @
                '': \<newline>No output.\<newline>'')))"

definition markdown_annotations ::
  "(rat \<Rightarrow> string) \<Rightarrow> (int \<times> cell_result) list \<Rightarrow> error + string list" where
  "markdown_annotations fmt_2f results = map_err (markdown_annotation fmt_2f) results"

subsection \<open>Weaving the annotations into the notebook\<close>

record cell =
  cell_type :: string
  source :: string

definition new_markdown_cell :: "string \<Rightarrow> cell" where
  "new_markdown_cell text = \<lparr>cell_type = ''markdown'', source = text\<rparr>"

definition nonempty_code :: "cell \<Rightarrow> bool" where
  "nonempty_code c = (cell_type c = ''code'' \<and> source c \<noteq> [])"

text \<open>The loop \<open>for i, cell in enumerate(nb['cells'])\<close>, with its two variables
  \<open>nonempty_code_cell_idx\<close> and \<open>new_cells\<close>; \<open>annotations\<close> is the list
  \<open>markdown_annotations\<close> of the code.\<close>

fun weave :: "string list \<Rightarrow> cell list \<Rightarrow> int \<Rightarrow> cell list \<Rightarrow> error + cell list" where
  "weave annotations [] nonempty_code_cell_idx new_cells = Inr new_cells"
| "weave annotations (c # cells) nonempty_code_cell_idx new_cells =
     (if nonempty_code c then
        (case py_getitem annotations (nonempty_code_cell_idx + 1) of
           Inl e \<Rightarrow> Inl e
         | Inr a \<Rightarrow>
             weave annotations cells (nonempty_code_cell_idx + 1)
               ((new_cells @ [c]) @ [new_markdown_cell a]))
      else weave annotations cells nonempty_code_cell_idx (new_cells @ [c]))"

definition weave_cells :: "string list \<Rightarrow> cell list \<Rightarrow> error + cell list" where
  "weave_cells annotations cells = weave annotations cells (- 1) []"

text \<open>The cells of the notebook that \<open>write_profiled_notebook_copy\<close> writes, from the parsed
  log and the cells of the source notebook.\<close>

definition write_profiled_notebook_copy ::
  "(rat \<Rightarrow> string) \<Rightarrow> datetime log_row list \<Rightarrow> cell list \<Rightarrow> error + cell list" where
  "write_profiled_notebook_copy fmt_2f rows cells =
     (case profiling_results rows of
        Inl e \<Rightarrow> Inl e
      | Inr results \<Rightarrow>
          (case markdown_annotations fmt_2f results of
             Inl e \<Rightarrow> Inl e
           | Inr annotations \<Rightarrow> weave_cells annotations cells))"

section \<open>The monitor: \<open>monitor\<close>\<close>

subsection \<open>Strings\<close>

text \<open>\<open>iso_to_path\<close>: \<open>time.replace(':', '-')\<close>.\<close>

definition iso_to_path :: "string \<Rightarrow> string" where
  "iso_to_path t = map (\<lambda>c. if c = CHR '':'' then CHR ''-'' else c) t"

text \<open>\<open>sub in s\<close> and \<open>s.index(sub, start)\<close>: the lowest position at or after \<open>start\<close> where
  \<open>sub\<close> begins, \<open>ValueError\<close> when there is none.\<close>

fun find_sub :: "string \<Rightarrow> string \<Rightarrow> nat option" where
  "find_sub sub [] = (if sub = [] then Some 0 else None)"
| "find_sub sub (c # cs) =
     (if take (length sub) (c # cs) = sub then Some 0 else map_option Suc (find_sub sub cs))"

definition contains :: "string \<Rightarrow> string \<Rightarrow> bool" where
  "contains sub s = (find_sub sub s \<noteq> None)"

definition str_index :: "string \<Rightarrow> string \<Rightarrow> nat \<Rightarrow> error + nat" where
  "str_index s sub start =
     (case find_sub sub (drop start s) of None \<Rightarrow> Inl ValueError | Some i \<Rightarrow> Inr (start + i))"

text \<open>\<open>s.split(sep)\<close> for a separator of one character: never an empty list.\<close>

fun split_char :: "char \<Rightarrow> string \<Rightarrow> string list" where
  "split_char sep [] = [[]]"
| "split_char sep (c # cs) =
     (if c = sep then [] # split_char sep cs
      else (c # hd (split_char sep cs)) # tl (split_char sep cs))"

text \<open>\<open>s.strip()\<close>. A character of a string is a code point below 256; the white space
  among these is the white space of ASCII, the separators \<open>0x1c\<close> to \<open>0x1f\<close>, the next line
  \<open>0x85\<close> and the no-break space \<open>0xa0\<close>.\<close>

definition is_space :: "char \<Rightarrow> bool" where
  "is_space c =
     (let n = (of_char c :: nat)
      in n = 32 \<or> (9 \<le> n \<and> n \<le> 13) \<or> (28 \<le> n \<and> n \<le> 31) \<or> n = 133 \<or> n = 160)"

definition strip :: "string \<Rightarrow> string" where
  "strip s = rev (dropWhile is_space (rev (dropWhile is_space s)))"

text \<open>\<open>int(s)\<close> in base ten (below 256 the decimal digits are those of ASCII): white space
  around the numeral is dropped, a
  sign may come first, and single underscores may stand between digits. Anything else
  is a \<open>ValueError\<close>.\<close>

definition is_digit :: "char \<Rightarrow> bool" where
  "is_digit c = (let n = (of_char c :: nat) in 48 \<le> n \<and> n \<le> 57)"

fun valid_digits :: "bool \<Rightarrow> string \<Rightarrow> bool" where
  "valid_digits after_digit [] = after_digit"
| "valid_digits after_digit (c # cs) =
     (if is_digit c then valid_digits True cs
      else if c = CHR ''_'' then after_digit \<and> valid_digits False cs
      else False)"

definition digits_value :: "string \<Rightarrow> nat" where
  "digits_value s = foldl (\<lambda>a c. 10 * a + (of_char c - 48)) 0 (filter is_digit s)"

definition py_int :: "string \<Rightarrow> error + int" where
  "py_int s =
     (let t = strip s;
          negative = (t \<noteq> [] \<and> hd t = CHR ''-'');
          body = (if t \<noteq> [] \<and> (hd t = CHR ''-'' \<or> hd t = CHR ''+'') then tl t else t)
      in if valid_digits False body
         then Inr (if negative then - int (digits_value body) else int (digits_value body))
         else Inl ValueError)"

subsection \<open>The page, the clocks and the libraries\<close>

text \<open>What the page answers when the script asks: an element is the record of the answers
  to the calls the script makes on it.\<close>

record input_cell =
  input_is_visible :: bool
  text_content :: string
  input_screenshot :: bytes

record div_element =
  style :: "string option"
  div_screenshot :: bytes

record output_cell =
  is_visible :: bool
  inner_div :: "div_element option"

text \<open>
  The world outside the script. The \<open>k\<close>-th call of a function that reads the page or a clock
  returns the \<open>k\<close>-th element of its sequence: \<open>input_polls\<close> for
  \<open>page.query_selector_all('.jp-InputArea-editor')\<close>, \<open>output_scans\<close> for
  \<open>page.query_selector_all('.jp-OutputArea-output')\<close>, \<open>clock\<close> for \<open>time.time()\<close> (exact
  rationals for its floats) and \<open>isotimes\<close> for \<open>isotime()\<close>. \<open>path_exists\<close> is
  \<open>os.path.exists\<close> when the script starts. \<open>read_log\<close> is the parse of the flushed log by
  \<open>np.recfromcsv\<close> and \<open>datetime.fromisoformat\<close>, \<open>read_notebook\<close> is \<open>nbformat.read\<close>, and
  \<open>format_2f\<close> is Python's format \<open>.2f\<close>.
\<close>

record world =
  input_polls :: "nat \<Rightarrow> input_cell list"
  output_scans :: "nat \<Rightarrow> output_cell list"
  clock :: "nat \<Rightarrow> rat"
  isotimes :: "nat \<Rightarrow> string"
  path_exists :: "string \<Rightarrow> bool"
  read_log :: "string list \<Rightarrow> datetime log_row list"
  read_notebook :: "string \<Rightarrow> cell list"
  format_2f :: "rat \<Rightarrow> string"

text \<open>
  The state of a run: the dictionary \<open>last_screenshot\<close>, what the script has done to the file
  system (directories made, images saved, the lines of the log that are written but still
  in the buffer of the file object, and the lines that a flush has put on disk), and how
  many readings of each sequence of the world it has used.
\<close>

record run_state =
  last_screenshot :: "int \<rightharpoonup> bytes"
  made_dirs :: "string list"
  saved_images :: "(string \<times> bytes) list"
  log_pending :: "string list"
  log_disk :: "string list"
  n_isotime :: nat
  n_time :: nat
  n_scan :: nat

definition initial_state :: run_state where
  "initial_state =
     \<lparr>last_screenshot = Map.empty, made_dirs = [], saved_images = [], log_pending = [],
      log_disk = [], n_isotime = 0, n_time = 0, n_scan = 0\<rparr>"

definition log_write :: "string \<Rightarrow> run_state \<Rightarrow> run_state" where
  "log_write line st = st\<lparr>log_pending := log_pending st @ [line]\<rparr>"

definition log_flush :: "run_state \<Rightarrow> run_state" where
  "log_flush st = st\<lparr>log_disk := log_disk st @ log_pending st, log_pending := []\<rparr>"

subsection \<open>The change detector\<close>

definition RG_SPECIAL :: "int \<times> int" where
  "RG_SPECIAL = (143, 56)"

text \<open>The three channels of the border colour, as the code parses them out of the style.\<close>

definition parse_rgb :: "string \<Rightarrow> error + int \<times> int \<times> int" where
  "parse_rgb sty =
     (case str_index sty ''border-color:'' 0 of
        Inl e \<Rightarrow> Inl e
      | Inr p \<Rightarrow>
     (case str_index sty ''('' p of
        Inl e \<Rightarrow> Inl e
      | Inr q \<Rightarrow>
     (let start_pos = q + 1 in
      case str_index sty '')'' start_pos of
        Inl e \<Rightarrow> Inl e
      | Inr end_pos \<Rightarrow>
     (case map_err py_int
             (split_char CHR '','' (take (end_pos - start_pos) (drop start_pos sty))) of
        Inl e \<Rightarrow> Inl e
      | Inr [r, g, b] \<Rightarrow> Inr (r, g, b)
      | Inr _ \<Rightarrow> Inl ValueError))))"

text \<open>The test \<open>output_index not in last_screenshot or
  last_screenshot[output_index] != screenshot_bytes\<close>.\<close>

definition screenshot_changed :: "(int \<rightharpoonup> bytes) \<Rightarrow> int \<Rightarrow> bytes \<Rightarrow> bool" where
  "screenshot_changed stored output_index screenshot_bytes =
     (case stored output_index of None \<Rightarrow> True | Some old \<Rightarrow> old \<noteq> screenshot_bytes)"

text \<open>The body of that test: save the image, write and flush the log row, remember the
  bytes.\<close>

definition record_change :: "string \<Rightarrow> world \<Rightarrow> int \<Rightarrow> bytes \<Rightarrow> run_state \<Rightarrow> run_state" where
  "record_change output w output_index screenshot_bytes st =
     (let timestamp = isotimes w (n_isotime st);
          screenshot_filename =
            path_join output
              (''output-'' @ fmt_03d output_index @ ''-'' @ iso_to_path timestamp @ ''.png'');
          st1 = st\<lparr>n_isotime := Suc (n_isotime st),
                   saved_images := saved_images st @ [(screenshot_filename, screenshot_bytes)]\<rparr>;
          st2 = log_flush
                  (log_write (timestamp @ '',output-changed,'' @ str_int output_index @ '','' @
                              screenshot_filename @ ''\<newline>'') st1)
      in st2\<lparr>last_screenshot := (last_screenshot st2)(output_index \<mapsto> screenshot_bytes)\<rparr>)"

text \<open>The body of the loop \<open>for output_cell in output_cells\<close>. An exception is returned
  together with the state it leaves behind.\<close>

definition watch_output_cell ::
  "string \<Rightarrow> world \<Rightarrow> output_cell \<Rightarrow> run_state \<Rightarrow> error \<times> run_state + run_state" where
  "watch_output_cell output w output_cell st =
     (if \<not> is_visible output_cell then Inr st
      else
        (case inner_div output_cell of
           None \<Rightarrow> Inr st
         | Some d \<Rightarrow>
             (case style d of
                None \<Rightarrow> Inr st
              | Some sty \<Rightarrow>
                  (if \<not> contains ''border-color: rgb('' sty then Inr st
                   else
                     (case parse_rgb sty of
                        Inl e \<Rightarrow> Inl (e, st)
                      | Inr (r, g, b) \<Rightarrow>
                          (if (r, g) \<noteq> RG_SPECIAL then Inr st
                           else if screenshot_changed (last_screenshot st) b (div_screenshot d)
                           then Inr (record_change output w b (div_screenshot d) st)
                           else Inr st))))))"

fun scan_output_cells ::
  "string \<Rightarrow> world \<Rightarrow> output_cell list \<Rightarrow> run_state \<Rightarrow> error \<times> run_state + run_state" where
  "scan_output_cells output w [] st = Inr st"
| "scan_output_cells output w (output_cell # output_cells) st =
     (case watch_output_cell output w output_cell st of
        Inl e \<Rightarrow> Inl e
      | Inr st' \<Rightarrow> scan_output_cells output w output_cells st')"

text \<open>The loop \<open>while time.time() - start < wait_after_execute\<close>. It may run for ever, so a
  run that never leaves it has the value \<open>None\<close>.\<close>

partial_function (option) watch_loop ::
  "string \<Rightarrow> int \<Rightarrow> world \<Rightarrow> rat \<Rightarrow> run_state \<Rightarrow> (error \<times> run_state + run_state) option" where
  "watch_loop output wait_after_execute w start st =
     (if clock w (n_time st) - start < of_int wait_after_execute then
        (case scan_output_cells output w (output_scans w (n_scan st))
                (st\<lparr>n_time := Suc (n_time st), n_scan := Suc (n_scan st)\<rparr>) of
           Inl e \<Rightarrow> Some (Inl e)
         | Inr st' \<Rightarrow> watch_loop output wait_after_execute w start st')
      else Some (Inr (st\<lparr>n_time := Suc (n_time st)\<rparr>)))"

declare watch_loop.simps [code]

subsection \<open>The executor loop\<close>

text \<open>From the screenshot of the input cell to the write of its log row. The row is written
  and, unlike the two other writes of the script, not flushed.\<close>

definition execute_input_cell :: "string \<Rightarrow> world \<Rightarrow> nat \<Rightarrow> input_cell \<Rightarrow> run_state \<Rightarrow> run_state" where
  "execute_input_cell output w input_index input_cell st =
     (let timestamp = isotimes w (n_isotime st);
          screenshot_filename =
            path_join output
              (''input-'' @ fmt_03d (int input_index) @ ''-'' @ iso_to_path timestamp @ ''.png'');
          st1 = st\<lparr>n_isotime := Suc (n_isotime st),
                   saved_images :=
                     saved_images st @ [(screenshot_filename, input_screenshot input_cell)]\<rparr>
      in log_write (timestamp @ '',execute-input,'' @ str_int (int input_index) @ '','' @
                    screenshot_filename @ ''\<newline>'') st1)"

text \<open>The loop \<open>for input_index, input_cell in enumerate(input_cells)\<close>.\<close>

fun execute_cells ::
  "string \<Rightarrow> int \<Rightarrow> world \<Rightarrow> nat \<Rightarrow> input_cell list \<Rightarrow> run_state \<Rightarrow>
     (error \<times> run_state + run_state) option" where
  "execute_cells output wait_after_execute w input_index [] st = Some (Inr st)"
| "execute_cells output wait_after_execute w input_index (input_cell # input_cells) st =
     (if strip (text_content input_cell) = [] then
        execute_cells output wait_after_execute w (Suc input_index) input_cells st
      else
        (let st1 = execute_input_cell output w input_index input_cell st in
         case watch_loop output wait_after_execute w (clock w (n_time st1))
                (st1\<lparr>n_time := Suc (n_time st1)\<rparr>) of
           None \<Rightarrow> None
         | Some (Inl e) \<Rightarrow> Some (Inl e)
         | Some (Inr st2) \<Rightarrow>
             execute_cells output wait_after_execute w (Suc input_index) input_cells st2))"

text \<open>The loop \<open>while True\<close> that waits for visible input cells, from the \<open>k\<close>-th poll on.\<close>

partial_function (option) wait_for_input_cells :: "world \<Rightarrow> nat \<Rightarrow> input_cell list option" where
  "wait_for_input_cells w k =
     (if length (filter input_is_visible (input_polls w k)) > 0
      then Some (filter input_is_visible (input_polls w k))
      else wait_for_input_cells w (Suc k))"

declare wait_for_input_cells.simps [code]

subsection \<open>The command\<close>

text \<open>The parameters of \<open>monitor\<close>; \<open>output_dir\<close> is its parameter \<open>output\<close>.\<close>

record arguments =
  url :: string
  output_dir :: "string option"
  wait_after_execute :: int
  headless :: bool
  copy_notebook :: "string option"

text \<open>How a run ends: \<open>sys.exit\<close> with a status, an exception that nothing handles, or the
  return of \<open>monitor\<close>, with the cells of the notebook copy when one was written.\<close>

datatype outcome = Exited int | Raised error | Returned "cell list option"

text \<open>The output directory: the argument, or a name made from the first reading of
  \<open>isotime()\<close>.\<close>

definition chosen_output :: "world \<Rightarrow> arguments \<Rightarrow> string" where
  "chosen_output w args =
     (case output_dir args of
        None \<Rightarrow> ''output-'' @ iso_to_path (isotimes w 0)
      | Some p \<Rightarrow> p)"

text \<open>
  The body of \<open>monitor\<close>, as a function of its parameters; how \<open>click\<close> binds the command
  line to them is not part of the model. Leaving the \<open>with\<close> block closes the log, which
  flushes it, also when an exception leaves it. The value is \<open>None\<close> when one of the loops
  runs for ever.
\<close>

definition monitor :: "world \<Rightarrow> arguments \<Rightarrow> (outcome \<times> run_state) option" where
  "monitor w args =
     (let st0 = (case output_dir args of
                   None \<Rightarrow> initial_state\<lparr>n_isotime := 1\<rparr>
                 | Some _ \<Rightarrow> initial_state);
          out = chosen_output w args
      in if path_exists w out then Some (Exited 1, st0)
         else
           (let st1 = st0\<lparr>made_dirs := made_dirs st0 @ [out]\<rparr>;
                st2 = log_flush (log_write ''time,event,index,screenshot\<newline>'' st1)
            in case wait_for_input_cells w 0 of
                 None \<Rightarrow> None
               | Some input_cells \<Rightarrow>
                   (case execute_cells out (wait_after_execute args) w 0 input_cells
                           (st2\<lparr>last_screenshot := Map.empty\<rparr>) of
                      None \<Rightarrow> None
                    | Some (Inl (e, st3)) \<Rightarrow> Some (Raised e, log_flush st3)
                    | Some (Inr st3) \<Rightarrow>
                        (let st4 = log_flush st3 in
                         case copy_notebook args of
                           None \<Rightarrow> Some (Returned None, st4)
                         | Some nb \<Rightarrow>
                             if nb = [] then Some (Returned None, st4)
                             else
                               (case write_profiled_notebook_copy (format_2f w)
                                       (read_log w (log_disk st4)) (read_notebook w nb) of
                                  Inl e \<Rightarrow> Some (Raised e, st4)
                                | Inr cells \<Rightarrow> Some (Returned (Some cells), st4))))))"

subsection \<open>A world for the examples\<close>

text \<open>
  A page on which two polls find nothing and the third finds three input cells: a non-empty
  one, a hidden one and a blank one. Every scan of the outputs finds a region marked
  \<open>rgb(143, 56, 7)\<close>, whose picture changes once after the first scan, and a region with
  another border colour, whose picture changes at every scan. Each reading of the clock is
  four seconds after the one before. The only path that exists is \<open>old\<close>. \<open>read_log\<close> is
  the parse of the log that a run on this page writes: one execution and two changes, a
  second apart.
\<close>

definition demo_world :: world where
  "demo_world =
     \<lparr>input_polls = (\<lambda>k. if k < 2 then []
          else [\<lparr>input_is_visible = True, text_content = ''x = 1'', input_screenshot = [1, 2]\<rparr>,
                \<lparr>input_is_visible = False, text_content = ''hidden'', input_screenshot = [9]\<rparr>,
                \<lparr>input_is_visible = True, text_content = ''  '', input_screenshot = [3]\<rparr>]),
      output_scans = (\<lambda>k.
          [\<lparr>is_visible = True,
            inner_div = Some \<lparr>style = Some ''border-color: rgb(143, 56, 7);'',
                              div_screenshot = [if k = 0 then 10 else 11]\<rparr>\<rparr>,
           \<lparr>is_visible = True,
            inner_div = Some \<lparr>style = Some ''border-color: rgb(143, 57, 7);'',
                              div_screenshot = [of_nat k]\<rparr>\<rparr>]),
      clock = (\<lambda>k. 4 * of_nat k),
      isotimes = (\<lambda>k. ''2024-01-01T00:00:0'' @ dec_nat k),
      path_exists = (\<lambda>p. p = ''old''),
      read_log = (\<lambda>lines.
          [\<lparr>time = 0, event = ''execute-input'', index = 0,
            screenshot = ''out/input-000-2024-01-01T00-00-00.png''\<rparr>,
           \<lparr>time = 1000000, event = ''output-changed'', index = 7,
            screenshot = ''out/output-007-2024-01-01T00-00-01.png''\<rparr>,
           \<lparr>time = 2000000, event = ''output-changed'', index = 7,
            screenshot = ''out/output-007-2024-01-01T00-00-02.png''\<rparr>]),
      read_notebook = (\<lambda>p. [\<lparr>cell_type = ''code'', source = ''x = 1''\<rparr>]),
      format_2f = (\<lambda>q. ''?'')\<rparr>"

definition demo_arguments :: arguments where
  "demo_arguments =
     \<lparr>url = ''http://localhost:8888/lab'', output_dir = Some ''out'', wait_after_execute = 10,
      headless = True, copy_notebook = Some ''nb.ipynb''\<rparr>"

subsection \<open>Notions used in the properties\<close>

text \<open>The notebook that the specification describes: every cell of the source notebook in
  its place, and right after the \<open>k\<close>-th cell, when it is a non-empty code cell, a markdown
  cell with the annotation whose number is the number of non-empty code cells before it.\<close>

definition annotated_cells :: "string list \<Rightarrow> cell list \<Rightarrow> cell list" where
  "annotated_cells annotations cells =
     concat (map (\<lambda>k. cells ! k #
                   (if nonempty_code (cells ! k)
                    then [new_markdown_cell
                            (annotations ! length (filter nonempty_code (take k cells)))]
                    else []))
               [0..<length cells])"


section \<open>Properties of the post-processor\<close>

subsection \<open>One executed cell with two changes\<close>

text \<open>
  Claim C3. For the log \<open>execute-input(0, t0)\<close>, \<open>output-changed(t1)\<close>, \<open>output-changed(t2)\<close>,
  with the times in microseconds, the times are converted to seconds elapsed since the
  first record (the execution is at 0, the changes at \<open>(t1 - t0) / 1000000\<close> and
  \<open>(t2 - t0) / 1000000\<close>), both changes are grouped under cell 0, and for cell 0 the total is
  \<open>(t2 - t0) / 1000000\<close> seconds and the number of updates is 2. The index and the screenshot
  path of the changes play no part.
\<close>

theorem profiling_results_two_changes:
  "profiling_results
     [\<lparr>time = t0, event = ''execute-input'', index = 0, screenshot = p0\<rparr>,
      \<lparr>time = t1, event = ''output-changed'', index = j1, screenshot = p1\<rparr>,
      \<lparr>time = t2, event = ''output-changed'', index = j2, screenshot = p2\<rparr>] =
   Inr [(0, \<lparr>execute_input =
               \<lparr>time = 0, event = ''execute-input'', index = 0, screenshot = p0\<rparr>,
             output_changed =
               [\<lparr>time = of_int (t1 - t0) / 1000000, event = ''output-changed'', index = j1,
                 screenshot = p1, output_from_cell = 0, dt = of_int (t1 - t0) / 1000000\<rparr>,
                \<lparr>time = of_int (t2 - t0) / 1000000, event = ''output-changed'', index = j2,
                 screenshot = p2, output_from_cell = 0, dt = of_int (t2 - t0) / 1000000\<rparr>],
             total = Some (of_int (t2 - t0) / 1000000), n_updates = Some 2\<rparr>)]"
  by (simp add: profiling_results_def elapsed_times_def finalize_def total_seconds_def)

text \<open>An instance: the execution one second after the epoch, the changes 2.5 and 5 seconds
  later.\<close>

theorem profiling_results_two_changes_witness:
  "profiling_results
     [\<lparr>time = 1000000, event = ''execute-input'', index = 0,
       screenshot = ''out/input-000.png''\<rparr>,
      \<lparr>time = 3500000, event = ''output-changed'', index = 0,
       screenshot = ''out/output-000-a.png''\<rparr>,
      \<lparr>time = 6000000, event = ''output-changed'', index = 0,
       screenshot = ''out/output-000-b.png''\<rparr>] =
   Inr [(0, \<lparr>execute_input =
               \<lparr>time = 0, event = ''execute-input'', index = 0,
                 screenshot = ''out/input-000.png''\<rparr>,
             output_changed =
               [\<lparr>time = 5 / 2, event = ''output-changed'', index = 0,
                 screenshot = ''out/output-000-a.png'', output_from_cell = 0, dt = 5 / 2\<rparr>,
                \<lparr>time = 5, event = ''output-changed'', index = 0,
                 screenshot = ''out/output-000-b.png'', output_from_cell = 0, dt = 5\<rparr>],
             total = Some 5, n_updates = Some 2\<rparr>)]"
  using profiling_results_two_changes
    [of 1000000 "''out/input-000.png''" 3500000 0 "''out/output-000-a.png''" 6000000 0
      "''out/output-000-b.png''"]
  by simp

subsection \<open>Lemmas on the grouping loop\<close>


lemma elapsed_times_map:
  "length rows \<noteq> 1 \<Longrightarrow>
   elapsed_times rows =
     Inr (map (\<lambda>r. \<lparr>time = total_seconds (time r - time (hd rows)), event = event r,
                    index = index r, screenshot = screenshot r\<rparr>) rows)"
  by (cases rows) (simp_all add: elapsed_times_def)

lemma elapsed_times_one: "length rows = 1 \<Longrightarrow> elapsed_times rows = Inl TypeError"
  by (simp add: elapsed_times_def)

lemma elapsed_times_cases:
  "elapsed_times rows = Inl TypeError \<and> length rows = 1 \<or>
   (\<exists>converted. elapsed_times rows = Inr converted \<and> length converted = length rows \<and>
      (\<forall>i<length rows. event (converted ! i) = event (rows ! i)))"
proof (cases "length rows = 1")
  case True
  then show ?thesis by (simp add: elapsed_times_one)
next
  case False
  then show ?thesis by (simp add: elapsed_times_map)
qed









subsection \<open>A change before any execution\<close>



subsection \<open>A repeated execution record\<close>




subsection \<open>Cells without output\<close>

lemma map_err_Inr:
  "map_err f xs = Inr ys \<Longrightarrow> length ys = length xs \<and> (\<forall>k<length xs. f (xs ! k) = Inr (ys ! k))"
proof (induction xs arbitrary: ys)
  case Nil
  then show ?case by simp
next
  case (Cons x xs)
  then show ?case
    by (auto split: sum.splits simp: nth_Cons split: nat.splits)
qed

lemma map_err_total:
  "(\<And>x. x \<in> set xs \<Longrightarrow> \<exists>y. f x = Inr y) \<Longrightarrow> \<exists>ys. map_err f xs = Inr ys"
  by (induction xs) (auto split: sum.splits, force+)

text \<open>The annotation loop raises nothing on the results of the loop before it.\<close>

lemma markdown_annotation_finalize:
  "\<exists>a. markdown_annotation fmt_2f (idx, finalize g) = Inr a"
  by (simp add: markdown_annotation_def finalize_def)

lemma markdown_annotations_total:
  assumes "profiling_results rows = Inr results"
  shows "\<exists>annotations. markdown_annotations fmt_2f results = Inr annotations \<and>
           length annotations = length results \<and>
           (\<forall>k<length results.
              markdown_annotation fmt_2f (results ! k) = Inr (annotations ! k))"
proof -
  from assms obtain res where
    res: "results = map (\<lambda>(idx, g). (idx, finalize g)) res"
    by (auto simp: profiling_results_def split: sum.splits)
  have "\<And>x. x \<in> set results \<Longrightarrow> \<exists>y. markdown_annotation fmt_2f x = Inr y"
    unfolding res using markdown_annotation_finalize by auto
  from map_err_total [of results "markdown_annotation fmt_2f", OF this] obtain annotations where
    "map_err (markdown_annotation fmt_2f) results = Inr annotations"
    by blast
  with map_err_Inr [OF this] show ?thesis
    by (auto simp: markdown_annotations_def)
qed

text \<open>Where the post-processor has its results, an entry without \<open>output-changed\<close> records
  has neither total nor number of updates, and its annotation is the heading followed by
  \<open>No output.\<close>\<close>

lemma no_output_annotation:
  assumes "profiling_results rows = Inr results"
    and "k < length results" and "results ! k = (idx, result)"
    and "output_changed result = []"
  shows "total result = None \<and> n_updates result = None \<and>
         (\<exists>annotations. markdown_annotations fmt_2f results = Inr annotations \<and>
            annotations ! k =
              ''#### Profiling result for cell '' @ str_int idx @ '': \<newline>No output.\<newline>'')"
proof -
  from assms(1) obtain res where
    res: "results = map (\<lambda>(idx, g). (idx, finalize g)) res"
    by (auto simp: profiling_results_def split: sum.splits)
  with assms(2,3) obtain g where "result = finalize g"
    by (cases "res ! k") auto
  with assms(4) have none: "total result = None \<and> n_updates result = None"
    by (simp add: finalize_def)
  from markdown_annotations_total [OF assms(1), of fmt_2f] obtain annotations where
    a: "markdown_annotations fmt_2f results = Inr annotations"
      "\<forall>k<length results. markdown_annotation fmt_2f (results ! k) = Inr (annotations ! k)"
    by blast
  from a(2) assms(2,3) have "markdown_annotation fmt_2f (idx, result) = Inr (annotations ! k)"
    by auto
  with assms(4) have "annotations ! k =
      ''#### Profiling result for cell '' @ str_int idx @ '': \<newline>No output.\<newline>''"
    by (simp add: markdown_annotation_def)
  with none a(1) show ?thesis by blast
qed

text \<open>
  Claim C7 does not hold of the code: for every executed cell without \<open>output-changed\<close>
  records the post-processor is to compute \<open>total = None\<close> and \<open>n_updates = None\<close> and to
  write the \<open>No output.\<close> annotation, but on the log of a run that executes one cell and sees
  no change (one \<open>execute-input\<close> row and nothing else) it raises a \<open>TypeError\<close> in the
  conversion of the times, before any result or annotation is computed.
\<close>

theorem single_execution_log_fails:
  "profiling_results
     [\<lparr>time = 1000000, event = ''execute-input'', index = 0,
       screenshot = ''out/input-000.png''\<rparr>] = Inl TypeError \<and>
   write_profiled_notebook_copy (\<lambda>q. ''?'')
     [\<lparr>time = 1000000, event = ''execute-input'', index = 0,
       screenshot = ''out/input-000.png''\<rparr>]
     [\<lparr>cell_type = ''code'', source = ''x = 1''\<rparr>] = Inl TypeError"
  by (simp add: write_profiled_notebook_copy_def profiling_results_def elapsed_times_def)

subsection \<open>The annotated notebook\<close>

lemma weave_append:
  "weave anns (xs @ ys) idx acc =
     (case weave anns xs idx acc of
        Inl e \<Rightarrow> Inl e
      | Inr acc' \<Rightarrow> weave anns ys (idx + int (length (filter nonempty_code xs))) acc')"
  by (induction xs arbitrary: idx acc) (auto split: sum.splits simp: add.assoc)

lemma annotated_cells_snoc:
  "annotated_cells anns (xs @ [c]) =
     annotated_cells anns xs @
       c # (if nonempty_code c
            then [new_markdown_cell (anns ! length (filter nonempty_code xs))] else [])"
proof -
  have h: "map (\<lambda>k. (xs @ [c]) ! k #
                   (if nonempty_code ((xs @ [c]) ! k)
                    then [new_markdown_cell
                            (anns ! length (filter nonempty_code (take k (xs @ [c]))))]
                    else [])) [0..<length xs] =
        map (\<lambda>k. xs ! k #
                   (if nonempty_code (xs ! k)
                    then [new_markdown_cell (anns ! length (filter nonempty_code (take k xs)))]
                    else [])) [0..<length xs]"
    by (rule map_cong) (simp_all add: nth_append)
  show ?thesis by (simp add: annotated_cells_def h)
qed

lemma weave_cells_eq:
  "weave_cells anns cells =
     (if length (filter nonempty_code cells) \<le> length anns
      then Inr (annotated_cells anns cells) else Inl IndexError)"
proof (induction cells rule: rev_induct)
  case Nil
  then show ?case by (simp add: weave_cells_def annotated_cells_def)
next
  case (snoc c xs)
  show ?case
  proof (cases "length (filter nonempty_code xs) \<le> length anns")
    case True
    with snoc have "weave anns xs (- 1) [] = Inr (annotated_cells anns xs)"
      by (simp add: weave_cells_def)
    with True show ?thesis
      unfolding weave_cells_def weave_append annotated_cells_snoc
      by (auto simp: py_getitem_def)
  next
    case False
    with snoc have "weave anns xs (- 1) [] = Inl IndexError"
      by (simp add: weave_cells_def)
    with False show ?thesis
      unfolding weave_cells_def weave_append by simp
  qed
qed

lemma length_annotated_cells:
  "length (annotated_cells anns cells) = length cells + length (filter nonempty_code cells)"
proof (induction cells rule: rev_induct)
  case Nil
  then show ?case by (simp add: annotated_cells_def)
next
  case (snoc c xs)
  then show ?case by (simp add: annotated_cells_snoc)
qed

text \<open>
  Claim C4. When the post-processor has its profiling entries, it has one annotation for
  each of them, and the notebook it writes is the source notebook with one synthesized
  markdown cell right after each non-empty code cell and every original cell in its
  original place, provided there are at least as many entries as non-empty code cells; the
  number of cells added is then the number of non-empty code cells. With fewer entries the
  merge fails with an \<open>IndexError\<close>. When the computation of the entries raises, no merge
  takes place.
\<close>

theorem annotated_notebook:
  "(profiling_results rows = Inl e \<longrightarrow>
      write_profiled_notebook_copy fmt_2f rows cells = Inl e) \<and>
   (profiling_results rows = Inr results \<longrightarrow>
      (\<exists>annotations.
         markdown_annotations fmt_2f results = Inr annotations \<and>
         length annotations = length results \<and>
         write_profiled_notebook_copy fmt_2f rows cells =
           (if length (filter nonempty_code cells) \<le> length results
            then Inr (annotated_cells annotations cells)
            else Inl IndexError) \<and>
         length (annotated_cells annotations cells) =
           length cells + length (filter nonempty_code cells)))"
proof (intro conjI impI)
  assume "profiling_results rows = Inl e"
  then show "write_profiled_notebook_copy fmt_2f rows cells = Inl e"
    by (simp add: write_profiled_notebook_copy_def)
next
  assume r: "profiling_results rows = Inr results"
  from markdown_annotations_total [OF r, of fmt_2f] obtain annotations where
    a: "markdown_annotations fmt_2f results = Inr annotations"
       "length annotations = length results"
    by blast
  with r have "write_profiled_notebook_copy fmt_2f rows cells =
             (if length (filter nonempty_code cells) \<le> length results
              then Inr (annotated_cells annotations cells)
              else Inl IndexError)"
    by (simp add: write_profiled_notebook_copy_def weave_cells_eq)
  with a show "\<exists>annotations.
         markdown_annotations fmt_2f results = Inr annotations \<and>
         length annotations = length results \<and>
         write_profiled_notebook_copy fmt_2f rows cells =
           (if length (filter nonempty_code cells) \<le> length results
            then Inr (annotated_cells annotations cells)
            else Inl IndexError) \<and>
         length (annotated_cells annotations cells) =
           length cells + length (filter nonempty_code cells)"
    by (simp add: length_annotated_cells)
qed

text \<open>An instance: two executed cells without output, woven into a notebook with two
  non-empty code cells, and into one with three; and a log on which the computation of the
  entries raises.\<close>

theorem annotated_notebook_witness:
  "write_profiled_notebook_copy (\<lambda>q. ''?'')
     [\<lparr>time = 0, event = ''execute-input'', index = 0, screenshot = ''out/a.png''\<rparr>,
      \<lparr>time = 1000000, event = ''execute-input'', index = 1, screenshot = ''out/b.png''\<rparr>]
     [\<lparr>cell_type = ''markdown'', source = ''# Title''\<rparr>,
      \<lparr>cell_type = ''code'', source = ''x = 1''\<rparr>,
      \<lparr>cell_type = ''code'', source = ''''\<rparr>,
      \<lparr>cell_type = ''code'', source = ''show(x)''\<rparr>] =
   Inr [\<lparr>cell_type = ''markdown'', source = ''# Title''\<rparr>,
        \<lparr>cell_type = ''code'', source = ''x = 1''\<rparr>,
        \<lparr>cell_type = ''markdown'',
          source = ''#### Profiling result for cell 0: \<newline>No output.\<newline>''\<rparr>,
        \<lparr>cell_type = ''code'', source = ''''\<rparr>,
        \<lparr>cell_type = ''code'', source = ''show(x)''\<rparr>,
        \<lparr>cell_type = ''markdown'',
          source = ''#### Profiling result for cell 1: \<newline>No output.\<newline>''\<rparr>] \<and>
   write_profiled_notebook_copy (\<lambda>q. ''?'')
     [\<lparr>time = 0, event = ''execute-input'', index = 0, screenshot = ''out/a.png''\<rparr>,
      \<lparr>time = 1000000, event = ''execute-input'', index = 1, screenshot = ''out/b.png''\<rparr>]
     [\<lparr>cell_type = ''code'', source = ''x = 1''\<rparr>,
      \<lparr>cell_type = ''code'', source = ''y = 2''\<rparr>,
      \<lparr>cell_type = ''code'', source = ''show(x)''\<rparr>] =
   Inl IndexError \<and>
   write_profiled_notebook_copy (\<lambda>q. ''?'')
     [\<lparr>time = 0, event = ''output-changed'', index = 0, screenshot = ''out/a.png''\<rparr>,
      \<lparr>time = 1000000, event = ''execute-input'', index = 1, screenshot = ''out/b.png''\<rparr>]
     [\<lparr>cell_type = ''code'', source = ''x = 1''\<rparr>] =
   Inl KeyError"
proof -
  let ?rows = "[\<lparr>time = 0, event = ''execute-input'', index = 0, screenshot = ''out/a.png''\<rparr>,
      \<lparr>time = 1000000, event = ''execute-input'', index = 1, screenshot = ''out/b.png''\<rparr>]"
  let ?bad = "[\<lparr>time = 0, event = ''output-changed'', index = 0, screenshot = ''out/a.png''\<rparr>,
      \<lparr>time = 1000000, event = ''execute-input'', index = 1, screenshot = ''out/b.png''\<rparr>]"
  let ?res = "[(0, \<lparr>execute_input =
               \<lparr>time = 0, event = ''execute-input'', index = 0, screenshot = ''out/a.png''\<rparr>,
             output_changed = [], total = None, n_updates = None\<rparr>),
        (1, \<lparr>execute_input =
               \<lparr>time = 1, event = ''execute-input'', index = 1, screenshot = ''out/b.png''\<rparr>,
             output_changed = [], total = None, n_updates = None\<rparr>)]"
  let ?two = "[\<lparr>cell_type = ''markdown'', source = ''# Title''\<rparr>,
          \<lparr>cell_type = ''code'', source = ''x = 1''\<rparr>,
          \<lparr>cell_type = ''code'', source = ''''\<rparr>,
          \<lparr>cell_type = ''code'', source = ''show(x)''\<rparr>]"
  let ?three = "[\<lparr>cell_type = ''code'', source = ''x = 1''\<rparr>,
          \<lparr>cell_type = ''code'', source = ''y = 2''\<rparr>,
          \<lparr>cell_type = ''code'', source = ''show(x)''\<rparr>]"
  have h: "profiling_results ?rows = Inr ?res"
    by (simp add: profiling_results_def elapsed_times_def finalize_def total_seconds_def)
  have b: "profiling_results ?bad = Inl KeyError"
    by (simp add: profiling_results_def elapsed_times_def)
  have s: "str_int 0 = ''0''" "str_int 1 = ''1''"
    by code_simp+
  have u: "[0..<4] = [0, 1, 2, 3]"
    by (simp add: upt_rec)
  note t = annotated_notebook [where fmt_2f = "\<lambda>q. ''?''"]
  from t [where rows = ?rows and results = ?res and cells = ?two, THEN conjunct2] h
    t [where rows = ?rows and results = ?res and cells = ?three, THEN conjunct2] h
    t [where rows = ?bad and e = KeyError
         and cells = "[\<lparr>cell_type = ''code'', source = ''x = 1''\<rparr>]", THEN conjunct1] b
  show ?thesis
    by (auto simp: nonempty_code_def annotated_cells_def markdown_annotations_def
        markdown_annotation_def new_markdown_cell_def s u)
qed

section \<open>Properties of the monitor\<close>

subsection \<open>Evaluations on the example world\<close>

lemma demo_marked_style:
  "contains ''border-color: rgb('' ''border-color: rgb(143, 56, 7);''"
  "parse_rgb ''border-color: rgb(143, 56, 7);'' = Inr (143, 56, 7)"
  by code_simp+

lemma demo_unmarked_style:
  "contains ''border-color: rgb('' ''border-color: rgb(143, 57, 7);''"
  "parse_rgb ''border-color: rgb(143, 57, 7);'' = Inr (143, 57, 7)"
  by code_simp+

lemma demo_isotimes: "isotimes demo_world 0 = ''2024-01-01T00:00:00''"
  by (simp add: demo_world_def digit_char_def)


subsection \<open>What a change does to the state\<close>

lemma record_change_log:
  "log_disk (record_change out w b shot st) =
     log_disk st @ log_pending st @
       [isotimes w (n_isotime st) @ '',output-changed,'' @ str_int b @ '','' @
        path_join out (''output-'' @ fmt_03d b @ ''-'' @ iso_to_path (isotimes w (n_isotime st)) @
                       ''.png'') @ ''\<newline>'']"
  "log_pending (record_change out w b shot st) = []"
  "last_screenshot (record_change out w b shot st) = (last_screenshot st)(b \<mapsto> shot)"
  by (simp_all add: record_change_def log_write_def log_flush_def Let_def)

lemma record_change_neq: "record_change out w b shot st \<noteq> st"
proof
  assume "record_change out w b shot st = st"
  then have "n_isotime (record_change out w b shot st) = n_isotime st" by simp
  then show False by (simp add: record_change_def log_write_def log_flush_def Let_def)
qed

lemma execute_input_cell_log:
  "log_disk (execute_input_cell out w input_index input_cell st) = log_disk st"
  "log_pending (execute_input_cell out w input_index input_cell st) =
     log_pending st @
       [isotimes w (n_isotime st) @ '',execute-input,'' @ str_int (int input_index) @ '','' @
        path_join out (''input-'' @ fmt_03d (int input_index) @ ''-'' @
                       iso_to_path (isotimes w (n_isotime st)) @ ''.png'') @ ''\<newline>'']"
  by (simp_all add: execute_input_cell_def log_write_def Let_def)

subsection \<open>Change detection\<close>

text \<open>
  Claim C1. For a visible region whose style carries the sentinel pair and the index \<open>b\<close>:
  if no bytes are stored for \<open>b\<close>, or the captured bytes differ from the stored ones, one
  \<open>output-changed\<close> row for \<open>b\<close> is written and flushed and the stored bytes for \<open>b\<close> become
  the captured bytes; otherwise the state stays as it is, so nothing is logged and nothing
  is stored. Either way the stored bytes for \<open>b\<close> are the captured bytes afterwards.
\<close>

theorem watch_output_cell_change:
  assumes "is_visible c" and "inner_div c = Some d" and "style d = Some sty"
    and "contains ''border-color: rgb('' sty" and "parse_rgb sty = Inr (143, 56, b)"
  shows "\<exists>st'. watch_output_cell out w c st = Inr st' \<and>
      (if last_screenshot st b = None \<or> last_screenshot st b \<noteq> Some (div_screenshot d)
       then log_disk st' = log_disk st @ log_pending st @
              [isotimes w (n_isotime st) @ '',output-changed,'' @ str_int b @ '','' @
               path_join out (''output-'' @ fmt_03d b @ ''-'' @
                              iso_to_path (isotimes w (n_isotime st)) @ ''.png'') @
               ''\<newline>''] \<and>
            log_pending st' = [] \<and>
            last_screenshot st' = (last_screenshot st)(b \<mapsto> div_screenshot d)
       else st' = st) \<and>
      last_screenshot st' b = Some (div_screenshot d)"
proof (cases "screenshot_changed (last_screenshot st) b (div_screenshot d)")
  case True
  then have c: "last_screenshot st b = None \<or> last_screenshot st b \<noteq> Some (div_screenshot d)"
    by (auto simp: screenshot_changed_def split: option.splits)
  from True assms have "watch_output_cell out w c st =
      Inr (record_change out w b (div_screenshot d) st)"
    by (simp add: watch_output_cell_def RG_SPECIAL_def)
  with c show ?thesis by (simp add: record_change_log)
next
  case False
  then have c: "\<not> (last_screenshot st b = None \<or>
                    last_screenshot st b \<noteq> Some (div_screenshot d))"
    by (auto simp: screenshot_changed_def split: option.splits)
  from False assms have "watch_output_cell out w c st = Inr st"
    by (simp add: watch_output_cell_def RG_SPECIAL_def)
  with c show ?thesis by auto
qed

text \<open>An instance: the bytes \<open>[10]\<close> are stored for index 7 and \<open>[11]\<close> are captured.\<close>

theorem watch_output_cell_change_witness:
  "\<exists>st'. watch_output_cell ''out'' demo_world
            \<lparr>is_visible = True,
              inner_div = Some \<lparr>style = Some ''border-color: rgb(143, 56, 7);'',
                                div_screenshot = [11]\<rparr>\<rparr>
            (initial_state\<lparr>last_screenshot := [7 \<mapsto> [10]]\<rparr>) = Inr st' \<and>
         log_disk st' =
           [''2024-01-01T00:00:00,output-changed,7,out/output-007-2024-01-01T00-00-00.png\<newline>''] \<and>
         log_pending st' = [] \<and>
         last_screenshot st' 7 = Some [11]"
proof -
  let ?d = "\<lparr>style = Some ''border-color: rgb(143, 56, 7);'', div_screenshot = [11]\<rparr>"
  let ?c = "\<lparr>is_visible = True, inner_div = Some ?d\<rparr>"
  have n: "str_int 7 = ''7''" "fmt_03d 7 = ''007''"
    by code_simp+
  have "is_visible ?c" "inner_div ?c = Some ?d"
    "style ?d = Some ''border-color: rgb(143, 56, 7);''"
    by simp_all
  from watch_output_cell_change [OF this demo_marked_style,
      of "''out''" demo_world "initial_state\<lparr>last_screenshot := [7 \<mapsto> [10]]\<rparr>"]
  show ?thesis
    by (simp add: initial_state_def demo_isotimes n path_join_def iso_to_path_def) blast
qed

subsection \<open>The sentinel\<close>

text \<open>
  Claim C2. A region whose style lacks the token \<open>border-color: rgb(\<close>, or whose first two
  channels are not \<open>(143, 56)\<close>, leaves the whole state as it is, whatever its third channel:
  no event is logged and \<open>last_screenshot\<close> is not modified. A region that changes the state
  has the sentinel pair, and its third channel is the index of the change. A style that
  cannot be parsed raises and leaves the state as it is as well. The code sets no bounds
  on the third channel.
\<close>

theorem unmarked_region_ignored:
  "(inner_div c = Some d \<and> style d = Some sty \<and>
      (\<not> contains ''border-color: rgb('' sty \<or>
       (\<exists>r g b. parse_rgb sty = Inr (r, g, b) \<and> (r, g) \<noteq> (143, 56))) \<longrightarrow>
      watch_output_cell out w c st = Inr st) \<and>
   (watch_output_cell out w c st = Inr st' \<and> st' \<noteq> st \<longrightarrow>
      (\<exists>d sty b. inner_div c = Some d \<and> style d = Some sty \<and>
         contains ''border-color: rgb('' sty \<and> parse_rgb sty = Inr (143, 56, b) \<and>
         st' = record_change out w b (div_screenshot d) st \<and>
         last_screenshot st' = (last_screenshot st)(b \<mapsto> div_screenshot d))) \<and>
   (watch_output_cell out w c st = Inl (e, st') \<longrightarrow> st' = st)"
proof (intro conjI impI)
  assume "inner_div c = Some d \<and> style d = Some sty \<and>
      (\<not> contains ''border-color: rgb('' sty \<or>
       (\<exists>r g b. parse_rgb sty = Inr (r, g, b) \<and> (r, g) \<noteq> (143, 56)))"
  then show "watch_output_cell out w c st = Inr st"
    by (auto simp: watch_output_cell_def RG_SPECIAL_def)
next
  assume "watch_output_cell out w c st = Inr st' \<and> st' \<noteq> st"
  then show "\<exists>d sty b. inner_div c = Some d \<and> style d = Some sty \<and>
         contains ''border-color: rgb('' sty \<and> parse_rgb sty = Inr (143, 56, b) \<and>
         st' = record_change out w b (div_screenshot d) st \<and>
         last_screenshot st' = (last_screenshot st)(b \<mapsto> div_screenshot d)"
    by (auto simp: watch_output_cell_def RG_SPECIAL_def record_change_log
        split: if_splits option.splits sum.splits prod.splits)
next
  assume "watch_output_cell out w c st = Inl (e, st')"
  then show "st' = st"
    by (auto simp: watch_output_cell_def split: if_splits option.splits sum.splits prod.splits)
qed

text \<open>An instance: the region with the border \<open>rgb(143, 57, 7)\<close> is ignored, the region with
  the border \<open>rgb(143, 56, 7)\<close> is recorded under the index 7.\<close>

theorem unmarked_region_ignored_witness:
  "watch_output_cell ''out'' demo_world
     \<lparr>is_visible = True,
       inner_div = Some \<lparr>style = Some ''border-color: rgb(143, 57, 7);'',
                         div_screenshot = [11]\<rparr>\<rparr>
     initial_state = Inr initial_state \<and>
   watch_output_cell ''out'' demo_world
     \<lparr>is_visible = True,
       inner_div = Some \<lparr>style = Some ''border-color: rgb(143, 56, 7);'',
                         div_screenshot = [11]\<rparr>\<rparr>
     initial_state = Inr (record_change ''out'' demo_world 7 [11] initial_state) \<and>
   (\<exists>d sty b.
      inner_div \<lparr>is_visible = True,
                 inner_div = Some \<lparr>style = Some ''border-color: rgb(143, 56, 7);'',
                                   div_screenshot = [11]\<rparr>\<rparr> = Some d \<and>
      style d = Some sty \<and> contains ''border-color: rgb('' sty \<and>
      parse_rgb sty = Inr (143, 56, b) \<and>
      record_change ''out'' demo_world 7 [11] initial_state =
        record_change ''out'' demo_world b (div_screenshot d) initial_state \<and>
      last_screenshot (record_change ''out'' demo_world 7 [11] initial_state) =
        (last_screenshot initial_state)(b \<mapsto> div_screenshot d))"
proof -
  let ?d57 = "\<lparr>style = Some ''border-color: rgb(143, 57, 7);'', div_screenshot = [11]\<rparr>"
  let ?d56 = "\<lparr>style = Some ''border-color: rgb(143, 56, 7);'', div_screenshot = [11]\<rparr>"
  let ?c57 = "\<lparr>is_visible = True, inner_div = Some ?d57\<rparr>"
  let ?c56 = "\<lparr>is_visible = True, inner_div = Some ?d56\<rparr>"
  let ?st' = "record_change ''out'' demo_world 7 [11] initial_state"
  have 1: "watch_output_cell ''out'' demo_world ?c57 initial_state = Inr initial_state"
    using unmarked_region_ignored
      [of ?c57 ?d57 "''border-color: rgb(143, 57, 7);''" "''out''" demo_world initial_state]
      demo_unmarked_style
    by simp
  have run: "watch_output_cell ''out'' demo_world ?c56 initial_state = Inr ?st'"
    by (simp add: watch_output_cell_def demo_marked_style RG_SPECIAL_def screenshot_changed_def
        initial_state_def)
  have neq: "?st' \<noteq> initial_state"
    by (rule record_change_neq)
  note imp = unmarked_region_ignored
    [where c = ?c56 and out = "''out''" and w = demo_world and st = initial_state
       and st' = ?st', THEN conjunct2, THEN conjunct1]
  from imp run neq 1 show ?thesis by blast
qed

subsection \<open>Flushing the log\<close>

text \<open>
  Claim C5 does not hold of the code: the row of an executed input cell is written and not
  flushed. On the example page, when the watch window of the first input cell opens, the
  disk holds the header alone and the \<open>execute-input\<close> row is still in the buffer; it
  reaches the disk with the flush of the next \<open>output-changed\<close> row or when the log is
  closed.
\<close>

theorem execution_row_left_in_buffer:
  "log_disk
     (execute_input_cell ''out'' demo_world 0
        \<lparr>input_is_visible = True, text_content = ''x = 1'', input_screenshot = [1, 2]\<rparr>
        (log_flush (log_write ''time,event,index,screenshot\<newline>''
           (initial_state\<lparr>made_dirs := [''out'']\<rparr>)))) =
     [''time,event,index,screenshot\<newline>''] \<and>
   log_pending
     (execute_input_cell ''out'' demo_world 0
        \<lparr>input_is_visible = True, text_content = ''x = 1'', input_screenshot = [1, 2]\<rparr>
        (log_flush (log_write ''time,event,index,screenshot\<newline>''
           (initial_state\<lparr>made_dirs := [''out'']\<rparr>)))) =
     [''2024-01-01T00:00:00,execute-input,0,out/input-000-2024-01-01T00-00-00.png\<newline>'']"
proof -
  have n: "str_int 0 = ''0''" "fmt_03d 0 = ''000''"
    by code_simp+
  show ?thesis
    by (simp add: execute_input_cell_log log_flush_def log_write_def initial_state_def
        demo_isotimes n path_join_def iso_to_path_def)
qed

subsection \<open>An output directory that exists\<close>

text \<open>
  Claim C6. If the chosen output directory exists, \<open>monitor\<close> exits with status 1 and has
  made no directory, saved no image and written nothing to the log. No other path through
  \<open>monitor\<close> calls \<open>sys.exit\<close>.
\<close>

theorem existing_output_directory:
  "(path_exists w (chosen_output w args) \<longrightarrow>
      (\<exists>st. monitor w args = Some (Exited 1, st) \<and> made_dirs st = [] \<and>
            saved_images st = [] \<and> log_pending st = [] \<and> log_disk st = [])) \<and>
   (monitor w args = Some (Exited n, st') \<longrightarrow> n = 1 \<and> path_exists w (chosen_output w args))"
  by (auto simp: monitor_def Let_def initial_state_def
      split: option.splits sum.splits prod.splits if_splits)

theorem existing_output_directory_witness:
  "path_exists demo_world (chosen_output demo_world (demo_arguments\<lparr>output_dir := Some ''old''\<rparr>)) \<and>
   (\<exists>st. monitor demo_world (demo_arguments\<lparr>output_dir := Some ''old''\<rparr>) =
            Some (Exited 1, st) \<and>
         made_dirs st = [] \<and> saved_images st = [] \<and> log_pending st = [] \<and> log_disk st = [])"
proof -
  have p: "path_exists demo_world
      (chosen_output demo_world (demo_arguments\<lparr>output_dir := Some ''old''\<rparr>))"
    by (simp add: chosen_output_def demo_world_def demo_arguments_def)
  with existing_output_directory
    [of demo_world "demo_arguments\<lparr>output_dir := Some ''old''\<rparr>"]
  show ?thesis by blast
qed

subsection \<open>How a run ends\<close>




















end
